theory Spec2Isabelle
  imports Complex_Main "HOL-Library.Char_ord" "HOL-Library.List_Lexorder"
begin

section \<open>Python values and errors\<close>

text \<open>
  The module mosaic/beamforming.py is Python 2 code over numpy and katpoint. Numbers are
  modelled as reals (exact arithmetic in place of IEEE doubles); the three special values
  that numpy's division can produce are written out in \<open>npfloat\<close>. The objects the
  code tests with \<open>isinstance\<close> and \<open>type\<close> are the constructors of \<open>pyval\<close>.
\<close>

datatype pyval =
    PNone
  | PInt int
  | PFloat real
  | PStr string
  | PList "pyval list"
  | PTuple "pyval list"
  | PNdarray "pyval list"
  | PTarget real real
  | PTargetNoRaDec string
  | PAntenna real real real
  | PObject string

text \<open>
  \<open>PTarget ra dec\<close> is a katpoint.Target with \<open>body._ra\<close> and \<open>body._dec\<close> (radians);
  \<open>PTargetNoRaDec\<close> is a katpoint.Target whose body has no attribute \<open>_ra\<close> (an
  azimuth-elevation target, say), given by its description;
  \<open>PAntenna lat lon elev\<close> is a katpoint.Antenna with its observer's latitude and
  longitude (radians) and elevation; \<open>PInt\<close> is a value of Python's type \<open>int\<close>
  and \<open>PFloat\<close> one of type \<open>float\<close>; \<open>PObject\<close> is any other object (a
  datetime, a long, say).

  The errors are the exceptions of the Python operations used. The module defines no
  exception class of its own.
\<close>

datatype error =
    IndexError
  | TypeError
  | AttributeError

text \<open>
  The two \<open>raise\<close> statements of the module raise a string. The package requires
  numpy 1.16 (setup.py), which runs on Python 2.7 and later, where a string is no exception:
  the statement \<open>raise "message"\<close> itself fails, and what reaches the caller is a
  TypeError ("exceptions must be old-style classes or derived from BaseException, not
  str"). The message is lost.
\<close>

definition raise_str :: "string \<Rightarrow> error" where
  "raise_str message = TypeError"

datatype npfloat = Fin real | NaN | PosInf | NegInf

definition np_true_divide :: "nat \<Rightarrow> nat \<Rightarrow> npfloat" where
  \<comment> \<open>an integer count divided by \<open>float(n)\<close> inside a numpy array: no exception on zero\<close>
  "np_true_divide c n =
     (if n = 0 then (if c = 0 then NaN else PosInf) else Fin (real c / real n))"

definition rad2deg :: "real \<Rightarrow> real" where
  "rad2deg x = x * 180 / pi"

fun py_len :: "pyval \<Rightarrow> error + nat" where
  "py_len (PList xs) = Inr (length xs)"
| "py_len (PTuple xs) = Inr (length xs)"
| "py_len (PNdarray xs) = Inr (length xs)"
| "py_len (PStr s) = Inr (length s)"
| "py_len _ = Inl TypeError"

fun py_index :: "pyval \<Rightarrow> nat \<Rightarrow> error + pyval" where
  "py_index (PList xs) i = (if i < length xs then Inr (xs ! i) else Inl IndexError)"
| "py_index (PTuple xs) i = (if i < length xs then Inr (xs ! i) else Inl IndexError)"
| "py_index (PNdarray xs) i = (if i < length xs then Inr (xs ! i) else Inl IndexError)"
| "py_index (PStr s) i = (if i < length s then Inr (PStr [s ! i]) else Inl IndexError)"
| "py_index _ i = Inl TypeError"


section \<open>PsfSim: input normalisation\<close>

fun is_ndarray :: "pyval \<Rightarrow> bool" where
  "is_ndarray (PNdarray _) = True"
| "is_ndarray _ = False"

fun is_Antenna :: "pyval \<Rightarrow> bool" where
  "is_Antenna (PAntenna _ _ _) = True"
| "is_Antenna _ = False"

fun is_Target :: "pyval \<Rightarrow> bool" where
  "is_Target (PTarget _ _) = True"
| "is_Target (PTargetNoRaDec _) = True"
| "is_Target _ = False"

text \<open>
  The loop of \<open>check_antennas\<close> over a katpoint list: every element is read through
  \<open>antenna.observer\<close>, which an object that is no Antenna does not have.
\<close>

fun antenna_list :: "pyval list \<Rightarrow> error + pyval list" where
  "antenna_list [] = Inr []"
| "antenna_list (PAntenna lat lon elev # as) =
     (case antenna_list as of
        Inl e \<Rightarrow> Inl e
      | Inr rows \<Rightarrow> Inr (PNdarray [PFloat (rad2deg lat), PFloat (rad2deg lon), PFloat elev] # rows))"
| "antenna_list (_ # as) = Inl AttributeError"

text \<open>
  \<open>check_antennas\<close> starts with \<open>antennas = np.array(antennas)\<close>; its argument here is
  that array, given by its elements \<open>antennas[0], antennas[1], ...\<close> (the rows of a
  two-dimensional array are \<open>PNdarray\<close>s). A function body that ends without
  \<open>return\<close> returns \<open>None\<close>.
\<close>

definition check_antennas :: "pyval list \<Rightarrow> error + pyval" where
  "check_antennas antennas =
     (case antennas of
        [] \<Rightarrow> Inl IndexError
      | a0 # _ \<Rightarrow>
          if is_ndarray a0 then Inr (PNdarray antennas)
          else if is_Antenna a0 then
            (case antenna_list antennas of
               Inl e \<Rightarrow> Inl e
             | Inr antenna_list' \<Rightarrow> Inr (PNdarray antenna_list'))
          else Inr PNone)"

text \<open>
  \<open>check_source\<close> reads \<open>source.body._ra\<close> of a katpoint.Target, which raises
  AttributeError when the body has no such attribute.
\<close>

fun check_source :: "pyval \<Rightarrow> error + pyval" where
  "check_source (PNdarray xs) = Inr (PNdarray xs)"
| "check_source (PList xs) = Inr (PList xs)"
| "check_source (PTuple xs) = Inr (PTuple xs)"
| "check_source (PTarget ra dec) = Inr (PNdarray [PFloat (rad2deg ra), PFloat (rad2deg dec)])"
| "check_source (PTargetNoRaDec d) = Inl AttributeError"
| "check_source _ = Inr PNone"


section \<open>BeamShape\<close>

record 'psf BeamShape =
  axisH :: real
  axisV :: real
  angle :: real
  psf :: 'psf
  antennas :: pyval
  bore_sight :: pyval
  reference_antenna :: "real \<times> real \<times> real"
  horizon :: "real list"

definition BeamShape_init ::
  "real \<Rightarrow> real \<Rightarrow> real \<Rightarrow> 'psf \<Rightarrow> pyval \<Rightarrow> pyval \<Rightarrow> real \<times> real \<times> real \<Rightarrow> real list
     \<Rightarrow> 'psf BeamShape" where
  "BeamShape_init axisH' axisV' angle' psf' antennas' bore_sight' reference_antenna' horizon' =
     \<lparr>axisH = axisH', axisV = axisV', angle = angle', psf = psf', antennas = antennas',
      bore_sight = bore_sight', reference_antenna = reference_antenna', horizon = horizon'\<rparr>"

text \<open>
  Modelled from the spec: \<open>normInverse\<close> is imported from the module \<open>utilities\<close>,
  which is not among the source files. The specification gives what it computes: the offset
  \<open>x\<close> at which a Gaussian of mean \<open>mu\<close> and standard deviation \<open>sigma\<close> has
  dropped to the fraction \<open>y\<close> of its peak, \<open>x = sigma * sqrt (- 2 * ln y)\<close> for
  mean zero and \<open>y\<close> in the open interval (0,1). Outside that interval the value of this
  definition comes from HOL's total \<open>ln\<close> and \<open>sqrt\<close> and stands for nothing the
  program is known to compute or to reject: the theorems on the widths below take the
  overlap in (0,1). The result is in \<open>error + real\<close> because the caller would propagate
  a raise.
\<close>

definition normInverse :: "real \<Rightarrow> real \<Rightarrow> real \<Rightarrow> error + real" where
  "normInverse y mu sigma = Inr (mu + sigma * sqrt (- 2 * ln y))"

definition width_at_overlap :: "'psf BeamShape \<Rightarrow> real \<Rightarrow> error + real \<times> real" where
  "width_at_overlap self ov =
     (let sigmaH = axisH self * (2 / 2.3548200450309493);
          sigmaV = axisV self * (2 / 2.3548200450309493)
      in case normInverse ov 0 sigmaH of
           Inl e \<Rightarrow> Inl e
         | Inr widthH \<Rightarrow>
             (case normInverse ov 0 sigmaV of
                Inl e \<Rightarrow> Inl e
              | Inr widthV \<Rightarrow> Inr (widthH, widthV)))"

text \<open>
  The conversion as the specification words it, for comparison with the code:
  \<open>sigma = axis / 2.3548200450309493\<close> and then \<open>x = sigma * sqrt (- 2 * ln overlap)\<close>
  on each axis.
\<close>

definition width_at_overlap_spec :: "'psf BeamShape \<Rightarrow> real \<Rightarrow> real \<times> real" where
  "width_at_overlap_spec self ov =
     (axisH self / 2.3548200450309493 * sqrt (- 2 * ln ov),
      axisV self / 2.3548200450309493 * sqrt (- 2 * ln ov))"


section \<open>PsfSim: the beam shape of an observation\<close>

text \<open>
  The external observation engine (\<open>InterferometryObservation\<close>, module
  \<open>interferometer\<close>) is a parameter: its state has type \<open>'e\<close>, its setters return
  the new state and its getters read it.
\<close>

record ('e, 'psf) observation_engine =
  setBoreSight :: "pyval \<Rightarrow> 'e \<Rightarrow> 'e"
  setObserveTime :: "pyval \<Rightarrow> 'e \<Rightarrow> 'e"
  createContour :: "pyval \<Rightarrow> 'e \<Rightarrow> 'e"
  getBeamAxis :: "'e \<Rightarrow> real \<times> real \<times> real"
  getHorizontal :: "'e \<Rightarrow> real list"
  getPointSpreadFunction :: "'e \<Rightarrow> 'psf"

record 'e PsfSim =
  observation :: 'e
  antennas :: pyval

definition PsfSim_reference_antenna :: "real \<times> real \<times> real" where
  "PsfSim_reference_antenna = (-30.71106, 21.44389, 1035)"

definition PsfSim_sol :: real where
  "PsfSim_sol = 299792458"

text \<open>
  The constructor: \<open>obs0\<close> is the engine state made by
  \<open>InterferometryObservation(self.reference_antenna, waveLengths)\<close>, and
  \<open>antennas\<close> is the array \<open>np.array(antennas)\<close> (see \<open>check_antennas\<close>).
\<close>

definition PsfSim_init :: "'e \<Rightarrow> pyval list \<Rightarrow> error + 'e PsfSim" where
  "PsfSim_init obs0 antennas' =
     (case check_antennas antennas' of
        Inl e \<Rightarrow> Inl e
      | Inr a \<Rightarrow> Inr \<lparr>observation = obs0, antennas = a\<rparr>)"

text \<open>
  \<open>get_beam_shape\<close> returns its result together with the object after the call: the
  engine state \<open>self.observation\<close> is what the call mutates.
\<close>

definition get_beam_shape ::
  "('e, 'psf) observation_engine \<Rightarrow> 'e PsfSim \<Rightarrow> pyval \<Rightarrow> pyval
     \<Rightarrow> (error + 'psf BeamShape) \<times> 'e PsfSim" where
  "get_beam_shape eng self source time =
     (case py_len (PsfSim.antennas self) of
        Inl e \<Rightarrow> (Inl e, self)
      | Inr n \<Rightarrow>
          if n < 3
          then (Inl (raise_str ''the number of antennas should be not less then 3''), self)
          else
            (case check_source source of
               Inl e \<Rightarrow> (Inl e, self)
             | Inr bore_sight' \<Rightarrow>
                 (let o1 = setBoreSight eng bore_sight' (observation self);
                      o2 = setObserveTime eng time o1;
                      o3 = createContour eng (PsfSim.antennas self) o2;
                      (axisH', axisV', angle') = getBeamAxis eng o3;
                      horizon' = map rad2deg (getHorizontal eng o3);
                      psf' = getPointSpreadFunction eng o3
                  in (Inr (BeamShape_init axisH' axisV' angle' psf' (PsfSim.antennas self)
                             bore_sight' PsfSim_reference_antenna horizon'),
                      self\<lparr>observation := o3\<rparr>))))"


section \<open>Overlap\<close>

text \<open>
  \<open>metrics\<close> is a two-dimensional numpy array, given by its rows; \<open>mode\<close> is the
  string passed to the constructor.
\<close>

record Overlap =
  metrics :: "real list list"
  mode :: string

definition Overlap_init :: "real list list \<Rightarrow> string \<Rightarrow> Overlap" where
  "Overlap_init metrics' mode' = \<lparr>metrics = metrics', mode = mode'\<rparr>"

definition count_nonzero :: "('a \<Rightarrow> bool) \<Rightarrow> 'a list list \<Rightarrow> nat" where
  \<comment> \<open>\<open>np.count_nonzero(array cond)\<close>: the number of elements of the array at which \<open>cond\<close> holds\<close>
  "count_nonzero cond arr = length (filter cond (concat arr))"

definition calculate_fractions :: "Overlap \<Rightarrow> error + npfloat \<times> npfloat \<times> npfloat" where
  "calculate_fractions self =
     (if mode self \<noteq> ''counter''
      then Inl (raise_str ''the fraction calculation is only supportted in counter mode'')
      else
        (let overlap_counter = metrics self;
             overlap_grid = count_nonzero (\<lambda>x. x > 1) overlap_counter;
             non_overlap_grid = count_nonzero (\<lambda>x. x = 1) overlap_counter;
             empty_grid = count_nonzero (\<lambda>x. x = 0) overlap_counter;
             point_num = overlap_grid + non_overlap_grid + empty_grid
         in Inr (np_true_divide overlap_grid point_num,
                 np_true_divide non_overlap_grid point_num,
                 np_true_divide empty_grid point_num)))"


section \<open>Tiling\<close>

record 'psf Tiling =
  coordinates :: "real list list"
  beam_shape :: "'psf BeamShape"
  tiling_radius :: real
  beam_num :: nat
  overlap :: real

definition Tiling_init ::
  "real list list \<Rightarrow> 'psf BeamShape \<Rightarrow> real \<Rightarrow> real \<Rightarrow> 'psf Tiling" where
  "Tiling_init coordinates' beam_shape' radius overlap' =
     \<lparr>coordinates = coordinates', beam_shape = beam_shape', tiling_radius = radius,
      beam_num = length coordinates', overlap = overlap'\<rparr>"

text \<open>
  The packing engine (module \<open>tile\<close>), the overlap sampler (module \<open>beamshape\<close>),
  the coordinate conversion (module \<open>coordinate\<close>) and the plotting functions (module
  \<open>plot\<close>) are external: they are parameters. A plotting function returns a value of
  type \<open>'plot\<close> that stands for the file it writes.
\<close>

record 'plot tiling_externals =
  ellipseCompact :: "int \<Rightarrow> real \<Rightarrow> real \<Rightarrow> real \<Rightarrow> int \<Rightarrow> real list list \<times> real"
  ellipseGrid :: "real \<Rightarrow> real \<Rightarrow> real \<Rightarrow> real \<Rightarrow> real list list"
  calculateBeamOverlaps ::
    "real list list \<Rightarrow> real \<Rightarrow> real \<Rightarrow> real \<Rightarrow> real \<Rightarrow> real \<Rightarrow> string \<Rightarrow> real list list"
  convert_pixel_coordinate_to_equatorial ::
    "real list list \<Rightarrow> pyval \<Rightarrow> real list list \<times> real"
  plotPackedBeam ::
    "real list list \<Rightarrow> real \<Rightarrow> real \<Rightarrow> real \<Rightarrow> real \<times> real \<Rightarrow> real \<Rightarrow> string \<Rightarrow> 'plot"
  plot_overlap :: "real list list \<Rightarrow> string \<Rightarrow> string \<Rightarrow> 'plot"

text \<open>
  The methods of a Tiling, each returning its result and the object after the call. No
  method assigns to an attribute of \<open>self\<close>.
\<close>

definition plot_tiling ::
  "'plot tiling_externals \<Rightarrow> 'psf Tiling \<Rightarrow> string \<Rightarrow> (error + 'plot) \<times> 'psf Tiling" where
  "plot_tiling ext self filename =
     (case width_at_overlap (beam_shape self) (overlap self) of
        Inl e \<Rightarrow> (Inl e, self)
      | Inr (widthH, widthV) \<Rightarrow>
          (Inr (plotPackedBeam ext (coordinates self) (angle (beam_shape self)) widthH widthV
                  (0, 0) (tiling_radius self) filename),
           self))"

definition get_equatorial_coordinates ::
  "'plot tiling_externals \<Rightarrow> 'psf Tiling \<Rightarrow> real list list \<times> 'psf Tiling" where
  "get_equatorial_coordinates ext self =
     (let (coordinates_equatorial, tiling_radius') =
            convert_pixel_coordinate_to_equatorial ext (coordinates self)
              (bore_sight (beam_shape self))
      in (coordinates_equatorial, self))"

definition calculate_overlap ::
  "'plot tiling_externals \<Rightarrow> 'psf Tiling \<Rightarrow> string \<Rightarrow> 'psf BeamShape option
     \<Rightarrow> Overlap \<times> 'psf Tiling" where
  "calculate_overlap ext self mode' new_beam_shape =
     (let beam_shape' = (case new_beam_shape of None \<Rightarrow> beam_shape self | Some b \<Rightarrow> b);
          overlap_metrics =
            calculateBeamOverlaps ext (coordinates self) (tiling_radius self)
              (axisH beam_shape') (axisV beam_shape') (angle beam_shape') (overlap self) mode'
      in (Overlap_init overlap_metrics mode', self))"

definition Overlap_plot :: "'plot tiling_externals \<Rightarrow> Overlap \<Rightarrow> string \<Rightarrow> 'plot" where
  "Overlap_plot ext self filename = plot_overlap ext (metrics self) (mode self) filename"

definition plot_sky_pattern ::
  "'plot tiling_externals \<Rightarrow> 'psf Tiling \<Rightarrow> string \<Rightarrow> 'plot \<times> 'psf Tiling" where
  "plot_sky_pattern ext self filename =
     (let (heats, self') = calculate_overlap ext self ''heater'' None
      in (Overlap_plot ext heats filename, self'))"

text \<open>
  The two generators. \<open>ellipseGrid\<close> returns an array of shape (2, N) and the code
  passes its transpose \<open>tiling_coordinates.T\<close> to the constructor.
\<close>

definition generate_nbeams_tiling ::
  "'plot tiling_externals \<Rightarrow> 'psf BeamShape \<Rightarrow> int \<Rightarrow> real \<Rightarrow> error + 'psf Tiling" where
  "generate_nbeams_tiling ext beam_shape' beam_num' overlap' =
     (case width_at_overlap beam_shape' overlap' of
        Inl e \<Rightarrow> Inl e
      | Inr (widthH, widthV) \<Rightarrow>
          (let (tiling_coordinates, tiling_radius') =
                 ellipseCompact ext beam_num' widthH widthV (angle beam_shape') 10
           in Inr (Tiling_init tiling_coordinates beam_shape' tiling_radius' overlap')))"

definition generate_radius_tiling ::
  "'plot tiling_externals \<Rightarrow> 'psf BeamShape \<Rightarrow> real \<Rightarrow> real \<Rightarrow> error + 'psf Tiling" where
  "generate_radius_tiling ext beam_shape' tiling_radius' overlap' =
     (case width_at_overlap beam_shape' overlap' of
        Inl e \<Rightarrow> Inl e
      | Inr (widthH, widthV) \<Rightarrow>
          (let tiling_coordinates =
                 ellipseGrid ext tiling_radius' widthH widthV (angle beam_shape')
           in Inr (Tiling_init (transpose tiling_coordinates) beam_shape' tiling_radius'
                     overlap')))"

text \<open>The operations on a Tiling, and the object after one of them.\<close>

datatype 'psf tiling_op =
    PlotTiling string
  | GetEquatorialCoordinates
  | PlotSkyPattern string
  | CalculateOverlap string "'psf BeamShape option"

fun tiling_after :: "'plot tiling_externals \<Rightarrow> 'psf tiling_op \<Rightarrow> 'psf Tiling \<Rightarrow> 'psf Tiling" where
  "tiling_after ext (PlotTiling filename) self = snd (plot_tiling ext self filename)"
| "tiling_after ext GetEquatorialCoordinates self = snd (get_equatorial_coordinates ext self)"
| "tiling_after ext (PlotSkyPattern filename) self = snd (plot_sky_pattern ext self filename)"
| "tiling_after ext (CalculateOverlap mode' b) self = snd (calculate_overlap ext self mode' b)"


section \<open>DelayPolynomial\<close>

text \<open>
  A Python dictionary with string keys is an association list read through
  \<open>map_of\<close>; \<open>sorted(dict_obj.iterkeys())\<close> lists its keys once each, in the
  lexicographic order of Python's byte strings.
\<close>

definition dict_to_ordered_list :: "(string \<times> 'v) list \<Rightarrow> 'v list" where
  "dict_to_ordered_list dict_obj =
     map (\<lambda>key. the (map_of dict_obj key)) (sort (remdups (map fst dict_obj)))"

text \<open>
  katpoint's delay-correction oracle, the ephemeris conversions of module
  \<open>coordinate\<close> and the constructor of katpoint.Target are external: they are
  parameters. \<open>corrections antennas reference frequency target (t0, t1)\<close> is the
  dictionary \<open>delay\<close> returned by
  \<open>katpoint.DelayCorrection(antennas, reference, frequency).corrections(target, (t0, t1))\<close>:
  per correlator input, an array of (delay, rate) rows, one per time sample.
\<close>

record delay_externals =
  angleToHour :: "pyval \<Rightarrow> string"
  angleToDEC :: "pyval \<Rightarrow> string"
  katpoint_Target :: "string \<Rightarrow> pyval"
  datetimeToEpoch :: "pyval \<Rightarrow> real"
  corrections ::
    "pyval \<Rightarrow> pyval \<Rightarrow> real \<Rightarrow> pyval \<Rightarrow> real \<times> real \<Rightarrow> (string \<times> real list list) list"

record DelayPolynomial =
  antennas :: pyval
  targets :: "pyval list"
  frequency :: real
  reference :: pyval

fun make_katpoint_target :: "delay_externals \<Rightarrow> pyval list \<Rightarrow> error + pyval list" where
  "make_katpoint_target ext [] = Inr []"
| "make_katpoint_target ext (source # sources) =
     (case py_index source 0 of
        Inl e \<Rightarrow> Inl e
      | Inr s0 \<Rightarrow>
          (case py_index source 1 of
             Inl e \<Rightarrow> Inl e
           | Inr s1 \<Rightarrow>
               (let target_string = ''radec'' @ '','' @ angleToHour ext s0 @ '','' @ angleToDEC ext s1
                in case make_katpoint_target ext sources of
                     Inl e \<Rightarrow> Inl e
                   | Inr targets' \<Rightarrow> Inr (katpoint_Target ext target_string # targets'))))"

definition check_targets :: "delay_externals \<Rightarrow> pyval list \<Rightarrow> error + pyval list" where
  "check_targets ext targets' =
     (case targets' of
        [] \<Rightarrow> Inl IndexError
      | t0 # _ \<Rightarrow> if is_Target t0 then Inr targets' else make_katpoint_target ext targets')"

fun check_time :: "delay_externals \<Rightarrow> pyval \<Rightarrow> real" where
  "check_time ext (PInt i) = of_int i"
| "check_time ext (PFloat x) = x"
| "check_time ext time = datetimeToEpoch ext time"

text \<open>The constructor sets \<open>self.frequency = 1.4e9\<close>, that is 1400000000.\<close>

definition DelayPolynomial_init ::
  "delay_externals \<Rightarrow> pyval \<Rightarrow> pyval list \<Rightarrow> pyval \<Rightarrow> error + DelayPolynomial" where
  "DelayPolynomial_init ext antennas' targets' reference' =
     (case check_targets ext targets' of
        Inl e \<Rightarrow> Inl e
      | Inr ts \<Rightarrow>
          Inr \<lparr>antennas = antennas', targets = ts, frequency = 1400000000, reference = reference'\<rparr>)"

text \<open>
  Arrays of three dimensions as nested lists. \<open>np.array\<close> of nested lists has three
  dimensions when the lists are rectangular at both levels; the indexing \<open>[:, 0, :]\<close>
  and \<open>[0, :, :]\<close> of anything else (an empty list, a ragged one, no row to take)
  raises IndexError.
\<close>

definition rect :: "'a list list \<Rightarrow> bool" where
  "rect xss = (case xss of [] \<Rightarrow> True | xs # _ \<Rightarrow> list_all (\<lambda>ys. length ys = length xs) xss)"

definition is_3d :: "'a list list list \<Rightarrow> bool" where
  "is_3d arr = (arr \<noteq> [] \<and> rect arr \<and> rect (concat arr) \<and> concat arr \<noteq> [])"

fun every_other :: "'a list \<Rightarrow> 'a list" where
  \<comment> \<open>the slice \<open>[::2]\<close>\<close>
  "every_other [] = []"
| "every_other [x] = [x]"
| "every_other (x # y # zs) = x # every_other zs"

definition first_rate :: "real list list list \<Rightarrow> error + real list list" where
  \<comment> \<open>\<open>delayArray[::2][:, 0, :]\<close>\<close>
  "first_rate delayArray =
     (if is_3d delayArray then Inr (map (\<lambda>a. a ! 0) (every_other delayArray))
      else Inl IndexError)"

fun target_loop ::
  "delay_externals \<Rightarrow> DelayPolynomial \<Rightarrow> real \<times> real \<Rightarrow> pyval list
     \<Rightarrow> error + real list list list" where
  "target_loop ext self timestamp [] = Inr []"
| "target_loop ext self timestamp (target # rest) =
     (let delay = corrections ext (antennas self) (reference self) (frequency self) target timestamp;
          delayArray = dict_to_ordered_list delay
      in case first_rate delayArray of
           Inl e \<Rightarrow> Inl e
         | Inr row \<Rightarrow>
             (case target_loop ext self timestamp rest of
                Inl e \<Rightarrow> Inl e
              | Inr rows \<Rightarrow> Inr (row # rows)))"

definition subtract_boresight :: "real list list list \<Rightarrow> error + real list list list" where
  \<comment> \<open>\<open>target_array - target_array[0, :, :]\<close>, the second operand broadcast over the targets\<close>
  "subtract_boresight target_array =
     (if is_3d target_array
      then Inr (map (\<lambda>row. map2 (map2 (\<lambda>x y. x - y)) row (target_array ! 0)) target_array)
      else Inl IndexError)"

definition get_delay_polynomials ::
  "delay_externals \<Rightarrow> DelayPolynomial \<Rightarrow> pyval \<Rightarrow> real \<Rightarrow> error + real list list list" where
  "get_delay_polynomials ext self epoch duration =
     (let timestamp = check_time ext epoch;
          timestamp' = (timestamp, timestamp + duration)
      in case target_loop ext self timestamp' (targets self) of
           Inl e \<Rightarrow> Inl e
         | Inr target_array \<Rightarrow> subtract_boresight target_array)"


section \<open>Example inputs\<close>

definition example_beam :: "unit BeamShape" where
  "example_beam = BeamShape_init 2 1 30 () PNone (PList [PFloat 0, PFloat 0]) (0, 0, 0) [0, 0]"

definition degenerate_beam :: "unit BeamShape" where
  "degenerate_beam = BeamShape_init 0 0 0 () PNone (PList [PFloat 0, PFloat 0]) (0, 0, 0) [0, 0]"

definition example_engine :: "(nat, unit) observation_engine" where
  "example_engine =
     \<lparr>setBoreSight = (\<lambda>b e. e + 1), setObserveTime = (\<lambda>t e. e + 1),
      createContour = (\<lambda>a e. e + 1), getBeamAxis = (\<lambda>e. (2, 1, 30)),
      getHorizontal = (\<lambda>e. [0, 0]), getPointSpreadFunction = (\<lambda>e. ())\<rparr>"

definition two_antennas :: "nat PsfSim" where
  "two_antennas =
     \<lparr>observation = 0,
      antennas = PNdarray [PNdarray [PFloat (-30), PFloat 21, PFloat 1035],
                           PNdarray [PFloat (-31), PFloat 21, PFloat 1035]]\<rparr>"

definition example_packing :: "unit tiling_externals" where
  "example_packing =
     \<lparr>ellipseCompact = (\<lambda>n widthH widthV angle' precision. (replicate (nat n) [0, 0], 1)),
      ellipseGrid = (\<lambda>radius widthH widthV angle'. [[0, 1, 2], [0, 0, 0]]),
      calculateBeamOverlaps = (\<lambda>cs radius aH aV angle' p m. [[0, 1], [2, 1]]),
      convert_pixel_coordinate_to_equatorial = (\<lambda>cs b. (cs, 0)),
      plotPackedBeam = (\<lambda>cs angle' widthH widthV centre radius fileName. ()),
      plot_overlap = (\<lambda>m mode' filename. ())\<rparr>"

definition example_delay_externals :: delay_externals where
  "example_delay_externals =
     \<lparr>angleToHour = (\<lambda>v. ''0:00:00''), angleToDEC = (\<lambda>v. ''0:00:00''),
      katpoint_Target = (\<lambda>s. PTarget 0 0), datetimeToEpoch = (\<lambda>v. 0),
      corrections = (\<lambda>a r f target (t0, t1).
         case target of
           PTarget ra dec \<Rightarrow>
             [(''m001v'', [[ra + 4, dec], [ra + 5, dec]]),
              (''m000h'', [[ra + 1, dec], [ra + 2, dec]]),
              (''m001h'', [[2 * ra + 3, 2 * dec], [ra + 4, dec]]),
              (''m000v'', [[ra + 2, dec], [ra + 3, dec]])]
         | _ \<Rightarrow> [])\<rparr>"

definition example_delay_polynomial :: DelayPolynomial where
  "example_delay_polynomial =
     \<lparr>antennas = PList [PStr ''m000'', PStr ''m001''], targets = [PTarget 1 2, PTarget 3 5],
      frequency = 1400000000, reference = PStr ''m000''\<rparr>"

section \<open>The width of a beam at an overlap level\<close>

lemma width_at_overlap_eq:
  "width_at_overlap self p =
     Inr (axisH self * (2 / 2.3548200450309493) * sqrt (- 2 * ln p),
          axisV self * (2 / 2.3548200450309493) * sqrt (- 2 * ln p))"
  by (simp add: width_at_overlap_def normInverse_def)

lemma sqrt_neg_ln_mono:
  assumes "0 < p1" "p1 \<le> p2" "p2 \<le> (1::real)"
  shows "sqrt (- 2 * ln p2) \<le> sqrt (- 2 * ln p1)"
  using assms by simp

lemma sqrt_neg_ln_pos:
  assumes "0 < p" "p < (1::real)"
  shows "0 < sqrt (- 2 * ln p)"
  using assms by simp

text \<open>
  Claim C1, as the code has it: for every BeamShape and every overlap in the open interval
  (0,1), \<open>width_at_overlap\<close> returns the pair obtained, independently per axis, as
  \<open>sigma * sqrt (- 2 * ln overlap)\<close> where \<open>sigma = axis * (2 / 2.3548200450309493)\<close>:
  the axis is a semi-axis, so the full width at half maximum is twice the axis.
\<close>

theorem width_at_overlap_formula:
  "0 < p \<Longrightarrow> p < 1 \<Longrightarrow>
   width_at_overlap self p =
     Inr (axisH self * (2 / 2.3548200450309493) * sqrt (- 2 * ln p),
          axisV self * (2 / 2.3548200450309493) * sqrt (- 2 * ln p))"
  by (rule width_at_overlap_eq)

theorem width_at_overlap_formula_witness:
  "(0::real) < 1 / 2 \<and> (1 / 2::real) < 1 \<and>
   width_at_overlap example_beam (1 / 2) =
     Inr (axisH example_beam * (2 / 2.3548200450309493) * sqrt (- 2 * ln (1 / 2)),
          axisV example_beam * (2 / 2.3548200450309493) * sqrt (- 2 * ln (1 / 2)))"
  using width_at_overlap_formula [of "1 / 2" example_beam] by simp

text \<open>
  Claim C1 as stated, with \<open>sigma = axis / 2.3548200450309493\<close>, fails: at the overlap
  \<open>exp (- 1 / 2)\<close>, where \<open>sqrt (- 2 * ln overlap) = 1\<close>, the code returns twice the
  stated widths.
\<close>

theorem width_at_overlap_spec_counterexample:
  "0 < exp (- 1 / 2 :: real) \<and> exp (- 1 / 2 :: real) < 1 \<and>
   width_at_overlap example_beam (exp (- 1 / 2))
     \<noteq> Inr (width_at_overlap_spec example_beam (exp (- 1 / 2)))"
  by (simp add: width_at_overlap_def normInverse_def width_at_overlap_spec_def
      example_beam_def BeamShape_init_def)

text \<open>
  Claim C8, as the code has it: for every BeamShape whose axes are not negative, both
  components of \<open>width_at_overlap\<close> are monotonically decreasing in the overlap on the
  open interval (0,1), and a component is strictly positive there when its axis is
  strictly positive.
\<close>

theorem width_at_overlap_monotone_positive:
  assumes "0 \<le> axisH self" "0 \<le> axisV self" "0 < p1" "p1 < p2" "p2 < 1"
  shows "\<exists>h1 v1 h2 v2.
           width_at_overlap self p1 = Inr (h1, v1) \<and> width_at_overlap self p2 = Inr (h2, v2) \<and>
           h2 \<le> h1 \<and> v2 \<le> v1 \<and>
           (0 < axisH self \<longrightarrow> 0 < h1 \<and> 0 < h2) \<and> (0 < axisV self \<longrightarrow> 0 < v1 \<and> 0 < v2)"
proof -
  let ?c = "2 / 2.3548200450309493 :: real"
  have m: "sqrt (- 2 * ln p2) \<le> sqrt (- 2 * ln p1)"
    using assms by (intro sqrt_neg_ln_mono) simp_all
  have s1: "0 < sqrt (- 2 * ln p1)" using assms by (intro sqrt_neg_ln_pos) simp_all
  have s2: "0 < sqrt (- 2 * ln p2)" using assms by (intro sqrt_neg_ln_pos) simp_all
  have gH: "0 \<le> axisH self * ?c" using assms(1) by simp
  have gV: "0 \<le> axisV self * ?c" using assms(2) by simp
  have mH: "axisH self * ?c * sqrt (- 2 * ln p2) \<le> axisH self * ?c * sqrt (- 2 * ln p1)"
    using gH m by (rule mult_left_mono[rotated])
  have mV: "axisV self * ?c * sqrt (- 2 * ln p2) \<le> axisV self * ?c * sqrt (- 2 * ln p1)"
    using gV m by (rule mult_left_mono[rotated])
  have pH: "0 < axisH self \<Longrightarrow> 0 < axisH self * ?c * sqrt (- 2 * ln p)"
    if "0 < sqrt (- 2 * ln p)" for p
    using that by simp
  have pV: "0 < axisV self \<Longrightarrow> 0 < axisV self * ?c * sqrt (- 2 * ln p)"
    if "0 < sqrt (- 2 * ln p)" for p
    using that by simp
  show ?thesis
    unfolding width_at_overlap_eq
    using mH mV pH[OF s1] pH[OF s2] pV[OF s1] pV[OF s2] by blast
qed

theorem width_at_overlap_monotone_positive_witness:
  "0 \<le> axisH example_beam \<and> 0 \<le> axisV example_beam \<and> (0::real) < 1 / 4 \<and>
   (1 / 4::real) < 1 / 2 \<and> (1 / 2::real) < 1 \<and>
   (\<exists>h1 v1 h2 v2.
      width_at_overlap example_beam (1 / 4) = Inr (h1, v1) \<and>
      width_at_overlap example_beam (1 / 2) = Inr (h2, v2) \<and>
      h2 \<le> h1 \<and> v2 \<le> v1 \<and> 0 < h1 \<and> 0 < h2 \<and> 0 < v1 \<and> 0 < v2)"
proof -
  have a: "axisH example_beam = 2" "axisV example_beam = 1"
    by (simp_all add: example_beam_def BeamShape_init_def)
  have h: "0 \<le> axisH example_beam" "0 \<le> axisV example_beam" "(0::real) < 1 / 4"
    "(1 / 4::real) < 1 / 2" "(1 / 2::real) < 1"
    by (simp_all add: a)
  from width_at_overlap_monotone_positive [OF h]
  show ?thesis using h a by auto
qed

text \<open>
  Claim C8 as stated fails for a BeamShape with a zero axis, which the constructor
  accepts: at overlap 1/2 both widths are zero, not strictly positive.
\<close>

theorem width_at_overlap_zero_axis_counterexample:
  "(0::real) < 1 / 2 \<and> (1 / 2::real) < 1 \<and>
   width_at_overlap degenerate_beam (1 / 2) = Inr (0, 0)"
  by (simp add: width_at_overlap_def normInverse_def degenerate_beam_def BeamShape_init_def)


section \<open>The antenna count of a PSF simulation\<close>

text \<open>
  Claim C2, at an array of two antennas: \<open>get_beam_shape\<close> ends at its \<open>raise\<close>
  statement, before any call on the observation engine (the object is returned as it was),
  but what it raises is the interpreter's TypeError for a raised string, the same exception
  as for an antenna array that has no length, and not an error that tells the caller that
  the antennas are too few.
\<close>

theorem get_beam_shape_two_antennas_TypeError:
  "py_len (PsfSim.antennas two_antennas) = Inr 2 \<and>
   get_beam_shape example_engine two_antennas (PList [PFloat 0, PFloat 0]) (PInt 0)
     = (Inl TypeError, two_antennas) \<and>
   get_beam_shape example_engine \<lparr>observation = 0, antennas = PNone\<rparr>
       (PList [PFloat 0, PFloat 0]) (PInt 0)
     = (Inl TypeError, \<lparr>observation = 0, antennas = PNone\<rparr>)"
  by (simp add: get_beam_shape_def two_antennas_def raise_str_def)


section \<open>Inputs of an unrecognised type\<close>

text \<open>
  Claim C9, as the code has it: \<open>check_antennas\<close>, given an array whose first element
  is neither an ndarray nor a katpoint Antenna, and \<open>check_source\<close>, given a source that
  is neither an ndarray, a list or a tuple nor a katpoint Target, raise no error and return
  \<open>None\<close>.
\<close>

theorem check_unrecognized_returns_None:
  "(\<not> is_ndarray a0 \<and> \<not> is_Antenna a0 \<longrightarrow> check_antennas (a0 # rest) = Inr PNone) \<and>
   ((\<forall>xs. source \<noteq> PNdarray xs \<and> source \<noteq> PList xs \<and> source \<noteq> PTuple xs) \<and>
      \<not> is_Target source
      \<longrightarrow> check_source source = Inr PNone)"
  by (cases source) (simp_all add: check_antennas_def)

theorem check_unrecognized_returns_None_witness:
  "\<not> is_ndarray (PInt 1) \<and> \<not> is_Antenna (PInt 1) \<and>
   check_antennas [PInt 1, PInt 2, PInt 3] = Inr PNone \<and>
   (\<forall>xs. PObject ''x'' \<noteq> PNdarray xs \<and> PObject ''x'' \<noteq> PList xs \<and> PObject ''x'' \<noteq> PTuple xs) \<and>
   \<not> is_Target (PObject ''x'') \<and> check_source (PObject ''x'') = Inr PNone"
  using check_unrecognized_returns_None [of "PInt 1" "[PInt 2, PInt 3]" "PObject ''x''"]
  by simp

text \<open>
  Claim C9 as stated fails: a string passed as the source, and an array of three integers
  passed as the antennas, are answered with \<open>None\<close>, not with an error.
\<close>

theorem check_unrecognized_counterexample:
  "check_source (PStr ''J0437-4715'') = Inr PNone \<and>
   check_antennas [PInt 1, PInt 2, PInt 3] = Inr PNone"
  by (simp add: check_antennas_def)


section \<open>The fractions of an overlap counter\<close>

lemma count_partition:
  "\<forall>x\<in>set xs. x \<in> \<nat> \<Longrightarrow>
   length (filter (\<lambda>x::real. x > 1) xs) + length (filter (\<lambda>x. x = 1) xs)
     + length (filter (\<lambda>x. x = 0) xs) = length xs"
proof (induction xs)
  case Nil
  then show ?case by simp
next
  case (Cons x xs)
  then obtain n :: nat where n: "x = real n" by (auto elim: Nats_cases)
  have "n = 0 \<or> n = 1 \<or> 1 < n" by arith
  with Cons n show ?case by auto
qed

lemma point_num_total:
  assumes "\<forall>row\<in>set m. \<forall>x\<in>set row. x \<in> \<nat>"
  shows "count_nonzero (\<lambda>x::real. x > 1) m + count_nonzero (\<lambda>x. x = 1) m
           + count_nonzero (\<lambda>x. x = 0) m = length (concat m)"
  unfolding count_nonzero_def using assms by (intro count_partition) auto

text \<open>
  Claim C5, as the code has it: for every Overlap of mode "counter" whose grid has at least
  one point and holds only non-negative integer counts, \<open>calculate_fractions\<close> returns the
  number of points with count above 1, with count 1 and with count 0, each divided by the
  number of grid points, and the three fractions sum to 1.
\<close>

theorem calculate_fractions_partition:
  assumes "mode self = ''counter''"
    and "\<forall>row\<in>set (metrics self). \<forall>x\<in>set row. x \<in> \<nat>"
    and "concat (metrics self) \<noteq> []"
  shows "\<exists>overlapped non_overlapped empty.
           calculate_fractions self = Inr (Fin overlapped, Fin non_overlapped, Fin empty) \<and>
           overlapped = real (count_nonzero (\<lambda>x. x > 1) (metrics self))
                          / real (length (concat (metrics self))) \<and>
           non_overlapped = real (count_nonzero (\<lambda>x. x = 1) (metrics self))
                          / real (length (concat (metrics self))) \<and>
           empty = real (count_nonzero (\<lambda>x. x = 0) (metrics self))
                          / real (length (concat (metrics self))) \<and>
           overlapped + non_overlapped + empty = 1"
proof -
  let ?a = "count_nonzero (\<lambda>x::real. x > 1) (metrics self)"
  let ?b = "count_nonzero (\<lambda>x::real. x = 1) (metrics self)"
  let ?c = "count_nonzero (\<lambda>x::real. x = 0) (metrics self)"
  let ?n = "length (concat (metrics self))"
  have tot: "?a + ?b + ?c = ?n" using assms(2) by (rule point_num_total)
  have pos: "0 < ?n" using assms(3) by simp
  have res: "calculate_fractions self =
      Inr (Fin (real ?a / real ?n), Fin (real ?b / real ?n), Fin (real ?c / real ?n))"
  proof -
    have "calculate_fractions self =
      Inr (np_true_divide ?a ?n, np_true_divide ?b ?n, np_true_divide ?c ?n)"
      using assms(1) unfolding calculate_fractions_def Let_def tot by simp
    moreover have "?n \<noteq> 0" using pos by simp
    ultimately show ?thesis unfolding np_true_divide_def by (simp only: if_False)
  qed
  have "real ?a + real ?b + real ?c = real ?n"
    using tot by (metis of_nat_add)
  then have "real ?a / real ?n + real ?b / real ?n + real ?c / real ?n = 1"
    using pos by (simp add: add_divide_distrib [symmetric])
  with res show ?thesis by blast
qed

theorem calculate_fractions_partition_witness:
  "mode (Overlap_init [[0, 1], [2, 1]] ''counter'') = ''counter'' \<and>
   concat (metrics (Overlap_init [[0, 1], [2, 1]] ''counter'')) \<noteq> [] \<and>
   calculate_fractions (Overlap_init [[0, 1], [2, 1]] ''counter'')
     = Inr (Fin (1 / 4), Fin (1 / 2), Fin (1 / 4))"
  using calculate_fractions_partition [of "Overlap_init [[0, 1], [2, 1]] ''counter''"]
  by (auto simp add: Overlap_init_def count_nonzero_def)

text \<open>
  Claim C5 as stated fails on a grid with no points (an array of shape (0, 0), which holds
  no count that is not a non-negative integer): the three counts and their sum are 0,
  numpy's division of 0 by 0.0 gives nan without raising, and three nan do not sum to 1.
\<close>

theorem calculate_fractions_empty_grid_counterexample:
  "mode (Overlap_init [] ''counter'') = ''counter'' \<and>
   calculate_fractions (Overlap_init [] ''counter'') = Inr (NaN, NaN, NaN)"
  by (simp add: calculate_fractions_def Overlap_init_def count_nonzero_def np_true_divide_def)

text \<open>
  Claim C6, at an Overlap of mode "heater": \<open>calculate_fractions\<close> ends at its
  \<open>raise\<close> statement and returns no fractions, but what it raises is the interpreter's
  TypeError for a raised string, not an error that tells the caller that the mode is not
  supported.
\<close>

theorem calculate_fractions_heater_TypeError:
  "mode (Overlap_init [[0, 1], [2, 1]] ''heater'') = ''heater'' \<and>
   calculate_fractions (Overlap_init [[0, 1], [2, 1]] ''heater'') = Inl TypeError"
  by (simp add: calculate_fractions_def Overlap_init_def raise_str_def)


section \<open>The beam count of a Tiling\<close>

text \<open>
  Claim C4: \<open>beam_num\<close> equals the number of coordinates in every Tiling made by the
  constructor, in the Tiling that \<open>generate_nbeams_tiling\<close> returns and in the one that
  \<open>generate_radius_tiling\<close> returns, and every operation on a Tiling preserves the
  equality.
\<close>

theorem tiling_beam_num_invariant:
  "beam_num (Tiling_init cs bs r p) = length (coordinates (Tiling_init cs bs r p)) \<and>
   (\<exists>t. generate_nbeams_tiling ext bs n p = Inr t \<and> beam_num t = length (coordinates t)) \<and>
   (\<exists>t. generate_radius_tiling ext bs r p = Inr t \<and> beam_num t = length (coordinates t)) \<and>
   (beam_num self = length (coordinates self) \<longrightarrow>
      beam_num (tiling_after ext op self) = length (coordinates (tiling_after ext op self)))"
proof -
  obtain wH wV where w: "width_at_overlap bs p = Inr (wH, wV)"
    unfolding width_at_overlap_eq by blast
  have 1: "beam_num (Tiling_init cs bs r p) = length (coordinates (Tiling_init cs bs r p))"
    for cs :: "real list list" and r
    by (simp add: Tiling_init_def)
  have 2: "\<exists>t. generate_nbeams_tiling ext bs n p = Inr t \<and> beam_num t = length (coordinates t)"
    using 1 by (simp add: generate_nbeams_tiling_def w Let_def split: prod.splits)
  have 3: "\<exists>t. generate_radius_tiling ext bs r p = Inr t \<and> beam_num t = length (coordinates t)"
    using 1 by (simp add: generate_radius_tiling_def w Let_def)
  have 4: "tiling_after ext op self = self"
    by (cases op)
      (simp_all add: plot_tiling_def get_equatorial_coordinates_def plot_sky_pattern_def
        calculate_overlap_def Let_def split: sum.splits prod.splits)
  show ?thesis using 1 2 3 4 by simp
qed

theorem tiling_beam_num_invariant_witness:
  "beam_num (Tiling_init [[0, 0], [1, 0]] example_beam 1 (1 / 2)) = 2 \<and>
   length (coordinates (Tiling_init [[0, 0], [1, 0]] example_beam 1 (1 / 2))) = 2 \<and>
   (\<exists>t. generate_nbeams_tiling example_packing example_beam 3 (1 / 2) = Inr t \<and>
        beam_num t = length (coordinates t)) \<and>
   (\<exists>t. generate_radius_tiling example_packing example_beam 1 (1 / 2) = Inr t \<and>
        beam_num t = length (coordinates t)) \<and>
   beam_num (tiling_after example_packing (CalculateOverlap ''counter'' None)
               (Tiling_init [[0, 0], [1, 0]] example_beam 1 (1 / 2)))
     = length (coordinates (tiling_after example_packing (CalculateOverlap ''counter'' None)
               (Tiling_init [[0, 0], [1, 0]] example_beam 1 (1 / 2))))"
proof -
  have h: "beam_num (Tiling_init [[0, 0], [1, 0]] example_beam 1 (1 / 2)) = 2"
    "length (coordinates (Tiling_init [[0, 0], [1, 0]] example_beam 1 (1 / 2))) = 2"
    by (simp_all add: Tiling_init_def)
  from tiling_beam_num_invariant
    [where cs = "[[0, 0], [1, 0]]" and bs = example_beam and r = 1 and p = "1 / 2"
       and ext = example_packing and n = 3
       and self = "Tiling_init [[0, 0], [1, 0]] example_beam 1 (1 / 2)"
       and op = "CalculateOverlap ''counter'' None"]
  show ?thesis using h by simp
qed


section \<open>Delay polynomials relative to the boresight\<close>

lemma map2_diff_self: "map2 (\<lambda>x y. x - y) xs xs = map (\<lambda>x. 0::real) xs"
  by (induction xs) simp_all

lemma map2_map2_diff_self:
  "map2 (map2 (\<lambda>x y. x - y)) row row = map (map (\<lambda>x. 0::real)) row"
  by (induction row) (simp_all add: map2_diff_self)

lemma subtract_boresight_row0:
  assumes "subtract_boresight target_array = Inr out"
  shows "length out = length target_array \<and> out \<noteq> [] \<and>
         out ! 0 = map (map (\<lambda>x. 0)) (target_array ! 0)"
proof -
  have d: "is_3d target_array" using assms
    by (simp add: subtract_boresight_def split: if_splits)
  then have ne: "target_array \<noteq> []" by (simp add: is_3d_def)
  have out: "out = map (\<lambda>row. map2 (map2 (\<lambda>x y. x - y)) row (target_array ! 0)) target_array"
    using assms d by (simp add: subtract_boresight_def)
  have "out ! 0 = map2 (map2 (\<lambda>x y. x - y)) (target_array ! 0) (target_array ! 0)"
    using ne by (simp add: out)
  then show ?thesis using ne by (simp add: out map2_map2_diff_self)
qed

lemma target_loop_length:
  "target_loop ext self ts tgts = Inr rows \<Longrightarrow> length rows = length tgts"
  by (induction tgts arbitrary: rows) (auto simp: Let_def split: sum.splits)

lemma example_delay_polynomials:
  "get_delay_polynomials example_delay_externals example_delay_polynomial (PInt 0) 10
     = Inr [[[0, 0], [0, 0]], [[2, 3], [4, 6]]]"
  by (simp add: get_delay_polynomials_def Let_def example_delay_externals_def
      example_delay_polynomial_def dict_to_ordered_list_def first_rate_def is_3d_def rect_def
      subtract_boresight_def less_eq_char_def less_char_def)

lemma example_DelayPolynomial_init:
  "DelayPolynomial_init example_delay_externals (PList [PStr ''m000'', PStr ''m001''])
     [PTarget 1 2, PTarget 3 5] (PStr ''m000'') = Inr example_delay_polynomial"
  by (simp add: DelayPolynomial_init_def check_targets_def example_delay_polynomial_def)

text \<open>
  Claim C3: whenever \<open>get_delay_polynomials\<close> returns an array, the array has one row
  per target, at least one, and its row at target index 0 is zero for every antenna and
  both components (delay, rate): the row of target 0 is subtracted from every row.
\<close>

theorem delay_polynomials_boresight_zero:
  assumes "get_delay_polynomials ext self epoch duration = Inr out"
  shows "length out = length (targets self) \<and> out \<noteq> [] \<and>
         (\<forall>antenna\<in>set (out ! 0). \<forall>x\<in>set antenna. x = 0)"
proof -
  obtain ta where
    ta: "target_loop ext self (check_time ext epoch, check_time ext epoch + duration)
           (targets self) = Inr ta"
    and sb: "subtract_boresight ta = Inr out"
    using assms by (auto simp: get_delay_polynomials_def Let_def split: sum.splits)
  from subtract_boresight_row0 [OF sb] target_loop_length [OF ta]
  show ?thesis by auto
qed

theorem delay_polynomials_boresight_zero_witness:
  "get_delay_polynomials example_delay_externals example_delay_polynomial (PInt 0) 10
     = Inr [[[0, 0], [0, 0]], [[2, 3], [4, 6]]] \<and>
   length [[[0, 0], [0, 0]], [[2, 3], [4, 6::real]]] = length (targets example_delay_polynomial) \<and>
   [[[0, 0], [0, 0]], [[2, 3], [4, 6]]] ! 0 = [[0, 0], [0, 0::real]]"
  using delay_polynomials_boresight_zero [OF example_delay_polynomials]
    example_delay_polynomials
  by simp


section \<open>The frequency of a DelayPolynomial\<close>

lemma target_loop_frequency:
  assumes "frequency self = 1400000000"
  shows "target_loop (ext\<lparr>corrections := \<lambda>a r f. corrections ext a r 1400000000\<rparr>) self ts tgts
           = target_loop ext self ts tgts"
  using assms by (induction tgts) (simp_all add: Let_def split: sum.splits)

lemma check_time_corrections:
  "check_time (ext\<lparr>corrections := c\<rparr>) t = check_time ext t"
  by (cases t) simp_all

text \<open>
  Claim C10: the constructor of DelayPolynomial takes the antennas, the targets and the
  reference and no frequency; in every object it returns, \<open>frequency\<close> is 1.4e9, and
  \<open>get_delay_polynomials\<close> on that object queries the delay-correction oracle at this
  frequency only: its result is the same when the oracle ignores the frequency it is given
  and uses 1.4e9.
\<close>

theorem delay_polynomial_frequency_fixed:
  assumes "DelayPolynomial_init ext antennas' targets' reference' = Inr self"
  shows "frequency self = 1400000000 \<and>
         get_delay_polynomials ext self epoch duration =
           get_delay_polynomials (ext\<lparr>corrections := \<lambda>a r f. corrections ext a r 1400000000\<rparr>)
             self epoch duration"
proof -
  have f: "frequency self = 1400000000"
    using assms by (auto simp: DelayPolynomial_init_def split: sum.splits)
  show ?thesis
    using f by (simp add: get_delay_polynomials_def target_loop_frequency check_time_corrections)
qed

theorem delay_polynomial_frequency_fixed_witness:
  "DelayPolynomial_init example_delay_externals (PList [PStr ''m000'', PStr ''m001''])
     [PTarget 1 2, PTarget 3 5] (PStr ''m000'') = Inr example_delay_polynomial \<and>
   frequency example_delay_polynomial = 1400000000 \<and>
   get_delay_polynomials
     (example_delay_externals\<lparr>corrections :=
        \<lambda>a r f. corrections example_delay_externals a r 1400000000\<rparr>)
     example_delay_polynomial (PInt 0) 10 = Inr [[[0, 0], [0, 0]], [[2, 3], [4, 6]]]"
  using delay_polynomial_frequency_fixed [OF example_DelayPolynomial_init, of "PInt 0" 10]
    example_DelayPolynomial_init example_delay_polynomials
  by simp

end
